theory Spec2Isabelle
  imports Complex_Main "HOL-Library.Sublist"
begin

section \<open>Strings and exceptions\<close>

text \<open>
  Python \<open>str\<close> values are modelled as ASCII strings. \<open>str.lower()\<close> maps the letters
  \<open>A\<close>..\<open>Z\<close> to \<open>a\<close>..\<open>z\<close> and leaves every other character alone; the regular expression
  class \<open>\d\<close> is the ten ASCII digits. Python floats are modelled as exact reals.
\<close>

definition lower_char :: "char \<Rightarrow> char" where
  "lower_char c =
     (let n = (of_char c :: nat) in if 65 \<le> n \<and> n \<le> 90 then char_of (n + 32) else c)"

definition lower :: "string \<Rightarrow> string" where
  "lower s = map lower_char s"

text \<open>The substring test \<open>sub in s\<close> of Python, scanning \<open>s\<close> from the left.\<close>

fun py_in :: "string \<Rightarrow> string \<Rightarrow> bool" where
  "py_in sub [] = (sub = [])"
| "py_in sub (c # cs) = (prefix sub (c # cs) \<or> py_in sub cs)"

definition is_digit :: "char \<Rightarrow> bool" where
  "is_digit c = (c \<in> set ''0123456789'')"

text \<open>\<open>re.findall(r'\d+', text)\<close>: the maximal runs of digits, left to right.\<close>

function findall_digits :: "string \<Rightarrow> string list" where
  "findall_digits [] = []"
| "findall_digits (c # cs) =
     (if is_digit c
      then (c # takeWhile is_digit cs) # findall_digits (dropWhile is_digit cs)
      else findall_digits cs)"
  by pat_completeness auto
termination
  by (relation "measure length") (auto simp: length_dropWhile_le less_Suc_eq_le)

text \<open>
  The exceptions of the program. \<open>ExternalError\<close> stands for any \<open>Exception\<close> raised by an
  external service or library call (embedding, storage, generation, file access).
\<close>

datatype py_exception = ValueError string | ZeroDivisionError | ExternalError string

type_synonym 'a outcome = "py_exception + 'a"

text \<open>Python's \<open>/\<close> on numbers raises on a zero divisor.\<close>

definition truediv :: "real \<Rightarrow> real \<Rightarrow> real outcome" where
  "truediv a b = (if b = 0 then Inl ZeroDivisionError else Inr (a / b))"

definition bind_outcome :: "'a outcome \<Rightarrow> ('a \<Rightarrow> 'b outcome) \<Rightarrow> 'b outcome" where
  "bind_outcome m f = (case m of Inl e \<Rightarrow> Inl e | Inr v \<Rightarrow> f v)"

section \<open>Data model\<close>

text \<open>
  A retrieved source document as \<open>NSWCrimeRAGPipeline.query\<close> returns it: the keys
  \<open>content\<close> and \<open>metadata\<close>. The metadata dictionary maps keys to string values.
\<close>

record source_doc =
  content :: string
  metadata :: "string \<rightharpoonup> string"

record ground_truth =
  gt_question :: string
  expected_keywords :: "string list"
  expected_sources :: "string list"

record evaluation_result =
  question :: string
  answer :: string
  source_documents :: "source_doc list"
  effectiveness_score :: real
  faithfulness_score :: real
  source_attribution_score :: real
  overall_score :: real
  timestamp :: string

section \<open>Scoring (\<open>RAGEvaluator\<close>)\<close>

definition evaluate_effectiveness :: "string \<Rightarrow> string \<Rightarrow> string list \<Rightarrow> real outcome" where
  "evaluate_effectiveness qn ans keywords =
     (if ans = [] \<or> keywords = [] then Inr 0
      else
        let answer_lower = lower ans;
            keyword_matches =
              fold (\<lambda>keyword n. if py_in (lower keyword) answer_lower then n + 1 else n)
                keywords (0::nat)
        in if keywords \<noteq> []
           then truediv (real keyword_matches) (real (length keywords))
           else Inr 0)"

definition crime_types :: "string list" where
  "crime_types = [''Murder'', ''Assault'', ''Robbery'', ''Break and enter'',
     ''Motor vehicle theft'', ''Drug'', ''Sexual assault'', ''Fraud'', ''Domestic violence'']"

definition lgas :: "string list" where
  "lgas = [''Greater Sydney'', ''NSW Regional'', ''New South Wales'']"

definition trends :: "string list" where
  "trends = [''increasing'', ''decreasing'', ''stable'']"

definition extract_facts :: "string \<Rightarrow> string list" where
  "extract_facts text =
     (let facts0 = [];
          numbers = findall_digits text;
          facts1 = facts0 @ numbers;
          facts2 = fold (\<lambda>crime_type facts.
                     if py_in crime_type text then facts @ [crime_type] else facts)
                     crime_types facts1;
          facts3 = fold (\<lambda>lga facts.
                     if py_in lga text then facts @ [lga] else facts)
                     lgas facts2;
          facts4 = fold (\<lambda>trend facts.
                     if py_in trend (lower text) then facts @ [trend] else facts)
                     trends facts3
      in facts4)"

text \<open>The inner loop over the source documents, left at the first document that holds the fact.\<close>

fun fact_supported :: "string \<Rightarrow> source_doc list \<Rightarrow> bool" where
  "fact_supported fa [] = False"
| "fact_supported fa (doc # docs) =
     (if py_in (lower fa) (lower (content doc)) then True else fact_supported fa docs)"

definition evaluate_faithfulness :: "string \<Rightarrow> source_doc list \<Rightarrow> real outcome" where
  "evaluate_faithfulness ans docs =
     (if ans = [] \<or> docs = [] then Inr 0
      else
        let answer_facts = extract_facts ans
        in if answer_facts = [] then Inr 0
           else
             let supported_facts =
                   fold (\<lambda>fa n. if fact_supported fa docs then n + 1 else n)
                     answer_facts (0::nat)
             in if answer_facts \<noteq> []
                then truediv (real supported_facts) (real (length answer_facts))
                else Inr 0)"

definition evaluate_source_attribution :: "source_doc list \<Rightarrow> string list \<Rightarrow> real outcome" where
  "evaluate_source_attribution docs expected =
     (if docs = [] then Inr 0
      else if expected = [] then Inr (if docs \<noteq> [] then 1 else 0)
      else
        let actual_sources =
              fold (\<lambda>doc s. case metadata doc ''lga'' of None \<Rightarrow> s | Some v \<Rightarrow> insert v s)
                docs {};
            expected_sources_set = set expected;
            intersection = actual_sources \<inter> expected_sources_set
        in if expected_sources_set = {} then Inr 1
           else truediv (real (card intersection)) (real (card expected_sources_set)))"

section \<open>The benchmark\<close>

definition load_ground_truth :: "ground_truth list" where
  "load_ground_truth =
     [\<lparr>gt_question = ''What are the crime statistics for Greater Sydney?'',
       expected_keywords = [''Greater Sydney'', ''crime'', ''statistics'', ''rate'', ''count'',
         ''per 100000''],
       expected_sources = [''Greater Sydney'']\<rparr>,
      \<lparr>gt_question = ''Compare crime rates between Greater Sydney and NSW Regional areas'',
       expected_keywords = [''compare'', ''Greater Sydney'', ''NSW Regional'', ''rate'',
         ''per 100000'', ''difference''],
       expected_sources = [''Greater Sydney'', ''NSW Regional'']\<rparr>,
      \<lparr>gt_question = ''Which region has the highest assault rates?'',
       expected_keywords = [''highest'', ''assault'', ''rate'', ''region'', ''Greater Sydney'',
         ''NSW Regional'', ''New South Wales''],
       expected_sources = [''Greater Sydney'', ''NSW Regional'', ''New South Wales'']\<rparr>,
      \<lparr>gt_question = ''What are the most common types of crimes in NSW?'',
       expected_keywords = [''common'', ''types'', ''crimes'', ''NSW'', ''Assault'', ''Theft'',
         ''Drug'', ''Break and enter''],
       expected_sources = [''New South Wales'']\<rparr>,
      \<lparr>gt_question = ''How has domestic violence related assault changed over time?'',
       expected_keywords = [''domestic violence'', ''assault'', ''changed'', ''time'', ''trend'',
         ''increasing'', ''decreasing''],
       expected_sources = [''Greater Sydney'', ''NSW Regional'', ''New South Wales'']\<rparr>,
      \<lparr>gt_question = ''What crime trends have occurred from 2015 to 2024?'',
       expected_keywords = [''trends'', ''2015'', ''2024'', ''crime'', ''increasing'',
         ''decreasing'', ''stable''],
       expected_sources = [''Greater Sydney'', ''NSW Regional'', ''New South Wales'']\<rparr>,
      \<lparr>gt_question = ''What are the murder rates across NSW regions?'',
       expected_keywords = [''murder'', ''rate'', ''regions'', ''Greater Sydney'',
         ''NSW Regional'', ''New South Wales''],
       expected_sources = [''Greater Sydney'', ''NSW Regional'', ''New South Wales'']\<rparr>,
      \<lparr>gt_question = ''How prevalent is motor vehicle theft in Greater Sydney?'',
       expected_keywords = [''motor vehicle theft'', ''prevalent'', ''Greater Sydney'', ''rate'',
         ''count''],
       expected_sources = [''Greater Sydney'']\<rparr>,
      \<lparr>gt_question = ''Which areas have the highest drug-related crime rates?'',
       expected_keywords = [''drug'', ''highest'', ''rate'', ''areas'', ''dealing'',
         ''trafficking'', ''possession''],
       expected_sources = [''Greater Sydney'', ''NSW Regional'', ''New South Wales'']\<rparr>,
      \<lparr>gt_question = ''Show me all drug-related offenses in NSW'',
       expected_keywords = [''drug'', ''offenses'', ''NSW'', ''dealing'', ''trafficking'',
         ''possession'', ''cannabis'', ''amphetamines''],
       expected_sources = [''New South Wales'']\<rparr>]"

section \<open>The retrieval pipeline (\<open>NSWCrimeRAGPipeline\<close>)\<close>

text \<open>
  The embedding service, the vector store, the generative model and the file system are
  outside the program. Every call to them is recorded in a log, and what a call returns is a
  function of the log so far (the history) and of its arguments, so that the same call may
  succeed once and fail later.
\<close>

datatype call =
    PathExists string
  | ReadCorpus string
  | FromDocuments string
  | Persist
  | OpenStore string
  | FromChainType
  | InvokeChain string

record document =
  page_content :: string
  doc_metadata :: "string \<rightharpoonup> string"

record chain_result =
  result :: string
  result_documents :: "document list"

text \<open>A vector-store handle stands for the chunks the store holds.\<close>

type_synonym vstore = "document list"

type_synonym chain = "call list \<Rightarrow> string \<Rightarrow> chain_result outcome"

text \<open>
  \<open>persisted\<close> observes the vector store from outside: the chunks that the index persisted at
  a directory holds once the calls of the log have been made, \<open>None\<close> when there is no index.
\<close>

record env =
  path_exists :: "call list \<Rightarrow> string \<Rightarrow> bool"
  read_json :: "call list \<Rightarrow> string \<Rightarrow> source_doc list outcome"
  split_documents :: "nat \<Rightarrow> nat \<Rightarrow> document list \<Rightarrow> document list"
  from_documents :: "call list \<Rightarrow> document list \<Rightarrow> string \<Rightarrow> vstore outcome"
  persist :: "call list \<Rightarrow> vstore \<Rightarrow> py_exception option"
  open_store :: "call list \<Rightarrow> string \<Rightarrow> vstore outcome"
  store_truth :: "vstore \<Rightarrow> bool"
  from_chain_type :: "call list \<Rightarrow> vstore \<Rightarrow> chain outcome"
  persisted :: "call list \<Rightarrow> string \<Rightarrow> document list option"

record rag_pipeline =
  vectorstore :: "vstore option"
  qa_chain :: "chain option"

definition new_pipeline :: rag_pipeline where
  "new_pipeline = \<lparr>vectorstore = None, qa_chain = None\<rparr>"

definition load_documents ::
  "env \<Rightarrow> string \<Rightarrow> call list \<Rightarrow> document list outcome \<times> call list" where
  "load_documents e documents_file hist =
     (case read_json e hist documents_file of
        Inl ex \<Rightarrow> (Inl ex, hist @ [ReadCorpus documents_file])
      | Inr data \<Rightarrow>
          (Inr (map (\<lambda>doc_data.
                  \<lparr>page_content = content doc_data, doc_metadata = metadata doc_data\<rparr>) data),
           hist @ [ReadCorpus documents_file]))"

definition create_vector_store ::
  "env \<Rightarrow> document list \<Rightarrow> string \<Rightarrow> rag_pipeline \<Rightarrow> call list
     \<Rightarrow> vstore outcome \<times> rag_pipeline \<times> call list" where
  "create_vector_store e documents persist_directory p hist =
     (let splits = split_documents e 1000 200 documents;
          hist1 = hist @ [FromDocuments persist_directory]
      in case from_documents e hist splits persist_directory of
           Inl ex \<Rightarrow> (Inl ex, p, hist1)
         | Inr vs \<Rightarrow>
             (let p1 = p\<lparr>vectorstore := Some vs\<rparr>;
                  hist2 = hist1 @ [Persist]
              in case persist e hist1 vs of
                   Some ex \<Rightarrow> (Inl ex, p1, hist2)
                 | None \<Rightarrow> (Inr vs, p1, hist2)))"

definition load_vector_store ::
  "env \<Rightarrow> string \<Rightarrow> rag_pipeline \<Rightarrow> call list \<Rightarrow> vstore outcome \<times> rag_pipeline \<times> call list" where
  "load_vector_store e persist_directory p hist =
     (case open_store e hist persist_directory of
        Inl ex \<Rightarrow> (Inl ex, p, hist @ [OpenStore persist_directory])
      | Inr vs \<Rightarrow> (Inr vs, p\<lparr>vectorstore := Some vs\<rparr>, hist @ [OpenStore persist_directory]))"

text \<open>
  \<open>not self.vectorstore\<close> holds for \<open>None\<close> and for a store object whose truth value is
  false; the truth value of a store object is the library's.
\<close>

definition setup_qa_chain ::
  "env \<Rightarrow> rag_pipeline \<Rightarrow> call list \<Rightarrow> chain outcome \<times> rag_pipeline \<times> call list" where
  "setup_qa_chain e p hist =
     (case vectorstore p of
        None \<Rightarrow> (Inl (ValueError ''Vector store not initialized''), p, hist)
      | Some vs \<Rightarrow>
          if \<not> store_truth e vs then (Inl (ValueError ''Vector store not initialized''), p, hist)
          else (case from_chain_type e hist vs of
                  Inl ex \<Rightarrow> (Inl ex, p, hist @ [FromChainType])
                | Inr c \<Rightarrow> (Inr c, p\<lparr>qa_chain := Some c\<rparr>, hist @ [FromChainType])))"

record query_result =
  qr_question :: string
  qr_answer :: string
  qr_source_documents :: "source_doc list"

text \<open>A chain object is a plain object: \<open>not self.qa_chain\<close> holds exactly for \<open>None\<close>.\<close>

definition query :: "rag_pipeline \<Rightarrow> string \<Rightarrow> call list \<Rightarrow> query_result outcome \<times> call list" where
  "query p qn hist =
     (case qa_chain p of
        None \<Rightarrow> (Inl (ValueError ''QA chain not initialized''), hist)
      | Some c \<Rightarrow>
          (case c hist qn of
             Inl ex \<Rightarrow> (Inl ex, hist @ [InvokeChain qn])
           | Inr res \<Rightarrow>
               (Inr \<lparr>qr_question = qn, qr_answer = result res,
                     qr_source_documents =
                       map (\<lambda>doc. \<lparr>content = page_content doc, metadata = doc_metadata doc\<rparr>)
                         (result_documents res)\<rparr>,
                hist @ [InvokeChain qn])))"

definition initialize_pipeline ::
  "env \<Rightarrow> string \<Rightarrow> bool \<Rightarrow> rag_pipeline \<Rightarrow> call list
     \<Rightarrow> unit outcome \<times> rag_pipeline \<times> call list" where
  "initialize_pipeline e documents_file force_recreate p hist =
     (let persist_directory = ''chroma_db'';
          hist0 = (if force_recreate then hist else hist @ [PathExists persist_directory]);
          (r1, p1, hist1) =
            (if force_recreate \<or> \<not> path_exists e hist persist_directory
             then (case load_documents e documents_file hist0 of
                     (Inl ex, l) \<Rightarrow> (Inl ex, p, l)
                   | (Inr documents, l) \<Rightarrow>
                       create_vector_store e documents persist_directory p l)
             else load_vector_store e persist_directory p hist0)
      in case r1 of
           Inl ex \<Rightarrow> (Inl ex, p1, hist1)
         | Inr vs \<Rightarrow>
             (case setup_qa_chain e p1 hist1 of
                (Inl ex, p2, hist2) \<Rightarrow> (Inl ex, p2, hist2)
              | (Inr c, p2, hist2) \<Rightarrow> (Inr (), p2, hist2)))"

section \<open>The evaluation run and the report (\<open>RAGEvaluator\<close>)\<close>

record evaluator =
  pipeline :: rag_pipeline
  evaluation_results :: "evaluation_result list"
  ground_truth_data :: "ground_truth list"

definition new_evaluator :: "rag_pipeline \<Rightarrow> evaluator" where
  "new_evaluator p =
     \<lparr>pipeline = p, evaluation_results = [], ground_truth_data = load_ground_truth\<rparr>"

text \<open>
  The body of the \<open>try\<close> block for one benchmark item. \<open>now\<close> is the clock read by
  \<open>datetime.now().isoformat()\<close>.
\<close>

definition evaluate_item ::
  "(call list \<Rightarrow> string) \<Rightarrow> rag_pipeline \<Rightarrow> ground_truth \<Rightarrow> call list
     \<Rightarrow> evaluation_result outcome \<times> call list" where
  "evaluate_item now p gt_data hist =
     (case query p (gt_question gt_data) hist of
        (Inl ex, hist') \<Rightarrow> (Inl ex, hist')
      | (Inr res, hist') \<Rightarrow>
          (bind_outcome
             (evaluate_effectiveness (gt_question gt_data) (qr_answer res)
                (expected_keywords gt_data))
             (\<lambda>effectiveness.
           bind_outcome (evaluate_faithfulness (qr_answer res) (qr_source_documents res))
             (\<lambda>faithfulness.
           bind_outcome
             (evaluate_source_attribution (qr_source_documents res) (expected_sources gt_data))
             (\<lambda>source_attribution.
                let overall = effectiveness * 0.4 + faithfulness * 0.4 + source_attribution * 0.2
                in Inr \<lparr>question = gt_question gt_data,
                        answer = qr_answer res,
                        source_documents = qr_source_documents res,
                        effectiveness_score = effectiveness,
                        faithfulness_score = faithfulness,
                        source_attribution_score = source_attribution,
                        overall_score = overall,
                        timestamp = now hist'\<rparr>))),
           hist'))"

text \<open>The \<open>for\<close> loop: \<open>except Exception: continue\<close> goes on with the next item.\<close>

fun run_loop ::
  "(call list \<Rightarrow> string) \<Rightarrow> rag_pipeline \<Rightarrow> ground_truth list \<Rightarrow> evaluation_result list
     \<Rightarrow> call list \<Rightarrow> evaluation_result list \<times> call list" where
  "run_loop now p [] results hist = (results, hist)"
| "run_loop now p (gt_data # rest) results hist =
     (case evaluate_item now p gt_data hist of
        (Inl ex, hist') \<Rightarrow> run_loop now p rest results hist'
      | (Inr eval_result, hist') \<Rightarrow> run_loop now p rest (results @ [eval_result]) hist')"

definition run_evaluation ::
  "(call list \<Rightarrow> string) \<Rightarrow> evaluator \<Rightarrow> call list \<Rightarrow> evaluator \<times> call list" where
  "run_evaluation now ev hist =
     (case run_loop now (pipeline ev) (ground_truth_data ev) (evaluation_results ev) hist of
        (results, hist') \<Rightarrow> (ev\<lparr>evaluation_results := results\<rparr>, hist'))"

text \<open>\<open>round(x, ndigits)\<close>, on exact reals: to the nearest, ties to the even neighbour.\<close>

definition round_half_even :: "real \<Rightarrow> int" where
  "round_half_even x =
     (let f = \<lfloor>x\<rfloor>; d = x - of_int f
      in if d < 1 / 2 then f else if 1 / 2 < d then f + 1 else if even f then f else f + 1)"

definition py_round :: "real \<Rightarrow> nat \<Rightarrow> real" where
  "py_round x ndigits = of_int (round_half_even (x * 10 ^ ndigits)) / 10 ^ ndigits"

definition generate_recommendations :: "real \<Rightarrow> real \<Rightarrow> real \<Rightarrow> string list" where
  "generate_recommendations effectiveness faithfulness source_attribution =
     (let r0 = [];
          r1 = (if effectiveness < 0.7
                then r0 @ [''Improve answer relevance by fine-tuning the retrieval system or adjusting the prompt template'']
                else r0);
          r2 = (if faithfulness < 0.7
                then r1 @ [''Enhance faithfulness by improving the grounding of answers in source documents'']
                else r1);
          r3 = (if source_attribution < 0.7
                then r2 @ [''Improve source attribution by optimizing the retriever to find more relevant documents'']
                else r2);
          r4 = (if 0.8 \<le> effectiveness \<and> 0.8 \<le> faithfulness
                then r3 @ [''System is performing well. Consider expanding the knowledge base for broader coverage'']
                else r3);
          r5 = (if r4 = []
                then r4 @ [''Continue monitoring system performance and consider expanding evaluation criteria'']
                else r4)
      in r5)"

record evaluation_summary =
  total_questions :: nat
  average_effectiveness :: real
  average_faithfulness :: real
  average_source_attribution :: real
  average_overall_score :: real
  unanswered_questions :: nat
  unanswered_percentage :: real

record detailed_result =
  dr_question :: string
  dr_effectiveness_score :: real
  dr_faithfulness_score :: real
  dr_source_attribution_score :: real
  dr_overall_score :: real

text \<open>The dictionary \<open>generate_report\<close> returns: the error entry alone, or the three sections.\<close>

datatype report =
    ErrorReport string
  | Report evaluation_summary "detailed_result list" "string list"

definition generate_report :: "evaluator \<Rightarrow> report outcome" where
  "generate_report ev =
     (let results = evaluation_results ev
      in if results = [] then Inr (ErrorReport ''No evaluation results available'')
         else
           let total = length results
           in bind_outcome (truediv (sum_list (map effectiveness_score results)) (real total))
                (\<lambda>avg_effectiveness.
              bind_outcome (truediv (sum_list (map faithfulness_score results)) (real total))
                (\<lambda>avg_faithfulness.
              bind_outcome
                (truediv (sum_list (map source_attribution_score results)) (real total))
                (\<lambda>avg_source_attribution.
              bind_outcome (truediv (sum_list (map overall_score results)) (real total))
                (\<lambda>avg_overall.
              let unanswered = length (filter (\<lambda>r. overall_score r < 0.3) results)
              in bind_outcome (truediv (real unanswered) (real total))
                (\<lambda>fraction.
              let percentage = fraction * 100
              in Inr (Report
                   \<lparr>total_questions = total,
                    average_effectiveness = py_round avg_effectiveness 3,
                    average_faithfulness = py_round avg_faithfulness 3,
                    average_source_attribution = py_round avg_source_attribution 3,
                    average_overall_score = py_round avg_overall 3,
                    unanswered_questions = unanswered,
                    unanswered_percentage = py_round percentage 1\<rparr>
                   (map (\<lambda>r.
                      \<lparr>dr_question = question r,
                       dr_effectiveness_score = py_round (effectiveness_score r) 3,
                       dr_faithfulness_score = py_round (faithfulness_score r) 3,
                       dr_source_attribution_score = py_round (source_attribution_score r) 3,
                       dr_overall_score = py_round (overall_score r) 3\<rparr>) results)
                   (generate_recommendations avg_effectiveness avg_faithfulness
                      avg_source_attribution))))))))"

section \<open>Notions used to state the properties\<close>

text \<open>
  The outcome of the \<open>try\<close> block for each benchmark item in turn, each at the history the
  loop has reached when it comes to that item.
\<close>

fun item_outcomes ::
  "(call list \<Rightarrow> string) \<Rightarrow> rag_pipeline \<Rightarrow> ground_truth list \<Rightarrow> call list
     \<Rightarrow> evaluation_result outcome list" where
  "item_outcomes now p [] hist = []"
| "item_outcomes now p (gt_data # rest) hist =
     (case evaluate_item now p gt_data hist of
        (r, hist') \<Rightarrow> r # item_outcomes now p rest hist')"

text \<open>The values of the outcomes that are not exceptions, in order.\<close>

definition successes :: "'a outcome list \<Rightarrow> 'a list" where
  "successes rs = concat (map (\<lambda>r. case r of Inl ex \<Rightarrow> [] | Inr v \<Rightarrow> [v]) rs)"

definition well_scored :: "evaluation_result \<Rightarrow> bool" where
  "well_scored r \<longleftrightarrow>
     overall_score r = 0.4 * effectiveness_score r + 0.4 * faithfulness_score r
                       + 0.2 * source_attribution_score r
     \<and> 0 \<le> effectiveness_score r \<and> effectiveness_score r \<le> 1
     \<and> 0 \<le> faithfulness_score r \<and> faithfulness_score r \<le> 1
     \<and> 0 \<le> source_attribution_score r \<and> source_attribution_score r \<le> 1"

text \<open>
  Faithfulness as the specification words it, for comparison with \<open>evaluate_faithfulness\<close>:
  the facts are a set, made of the digit runs of the answer and of the vocabulary terms
  (crime categories, region names, trend words) that occur verbatim in the answer; the score
  is the share of that set found, ignoring case, in some source document.
\<close>

definition spec_facts :: "string \<Rightarrow> string set" where
  "spec_facts ans =
     set (findall_digits ans) \<union> set (filter (\<lambda>t. py_in t ans) (crime_types @ lgas @ trends))"

definition spec_faithfulness :: "string \<Rightarrow> source_doc list \<Rightarrow> real" where
  "spec_faithfulness ans docs =
     (if spec_facts ans = {} \<or> docs = [] then 0
      else real (card (Set.filter (\<lambda>fa. fact_supported fa docs) (spec_facts ans)))
             / real (card (spec_facts ans)))"

text \<open>
  Atomicity of a build as the specification words it, for comparison with
  \<open>create_vector_store\<close>: after a build that returns, the persisted index holds exactly the
  chunks of the corpus; after a build that raises, it holds what it held before.
\<close>

definition spec_atomic_build ::
  "env \<Rightarrow> document list \<Rightarrow> string \<Rightarrow> rag_pipeline \<Rightarrow> call list \<Rightarrow> bool" where
  "spec_atomic_build e documents d p hist =
     (case create_vector_store e documents d p hist of
        (Inr vs, p', hist') \<Rightarrow> persisted e hist' d = Some (split_documents e 1000 200 documents)
      | (Inl ex, p', hist') \<Rightarrow> persisted e hist' d = persisted e hist d)"


section \<open>Sample inputs\<close>

text \<open>
  A wired chain whose generation service fails on the question \<open>q2\<close>, a benchmark of three
  items around it, a clock, and an environment in which every external call succeeds.
\<close>

definition sample_chain :: chain where
  "sample_chain = (\<lambda>hist qn.
     if qn = ''q2'' then Inl (ExternalError ''generation service down'')
     else Inr \<lparr>result = ''The crime rate is 500'',
               result_documents =
                 [\<lparr>page_content = ''rate 500'',
                   doc_metadata = [''lga'' \<mapsto> ''Greater Sydney'']\<rparr>]\<rparr>)"

definition sample_evaluator :: evaluator where
  "sample_evaluator =
     \<lparr>pipeline = \<lparr>vectorstore = None, qa_chain = Some sample_chain\<rparr>,
      evaluation_results = [],
      ground_truth_data =
        [\<lparr>gt_question = ''q1'', expected_keywords = [''crime'', ''count''],
          expected_sources = [''Greater Sydney'']\<rparr>,
         \<lparr>gt_question = ''q2'', expected_keywords = [''crime''], expected_sources = []\<rparr>,
         \<lparr>gt_question = ''q3'', expected_keywords = [''rate''],
          expected_sources = [''NSW Regional'']\<rparr>]\<rparr>"

definition sample_now :: "call list \<Rightarrow> string" where
  "sample_now hist = ''2024-01-01T00:00:00''"

definition sample_env :: env where
  "sample_env =
     \<lparr>path_exists = (\<lambda>hist d. True),
      read_json = (\<lambda>hist f. Inr [\<lparr>content = ''Greater Sydney assault rate is 500'',
                                  metadata = [''lga'' \<mapsto> ''Greater Sydney'']\<rparr>]),
      split_documents = (\<lambda>chunk_size chunk_overlap docs. docs),
      from_documents = (\<lambda>hist docs d. Inr docs),
      persist = (\<lambda>hist vs. None),
      open_store = (\<lambda>hist d. Inr []),
      store_truth = (\<lambda>vs. True),
      from_chain_type = (\<lambda>hist vs. Inr sample_chain),
      persisted = (\<lambda>hist d.
        if Persist \<in> set hist
        then Some [\<lparr>page_content = ''Greater Sydney assault rate is 500'',
                    doc_metadata = [''lga'' \<mapsto> ''Greater Sydney'']\<rparr>]
        else None)\<rparr>"

text \<open>
  Two vector stores, for a corpus of two chunks. The first writes the first chunk of a build
  and then fails. The second holds one chunk of an earlier build and adds the chunks of a new
  build to it.
\<close>

definition chunk1 :: document where
  "chunk1 = \<lparr>page_content = ''Greater Sydney assault rate is 500'',
             doc_metadata = [''lga'' \<mapsto> ''Greater Sydney'']\<rparr>"

definition chunk2 :: document where
  "chunk2 = \<lparr>page_content = ''NSW Regional assault rate is 700'',
             doc_metadata = [''lga'' \<mapsto> ''NSW Regional'']\<rparr>"

definition failing_store_env :: env where
  "failing_store_env =
     sample_env
       \<lparr>from_documents := (\<lambda>hist docs d. Inl (ExternalError ''embedding service unreachable'')),
        persisted := (\<lambda>hist d. if FromDocuments d \<in> set hist then Some [chunk1] else None)\<rparr>"

definition appending_store_env :: env where
  "appending_store_env =
     sample_env
       \<lparr>from_documents := (\<lambda>hist docs d. Inr (chunk1 # docs)),
        persisted := (\<lambda>hist d.
          if FromDocuments d \<in> set hist then Some [chunk1, chunk1, chunk2] else Some [chunk1])\<rparr>"

section \<open>Properties of the string operations\<close>

lemma py_in_sublist: "py_in sub s \<longleftrightarrow> sublist sub s"
  by (induction s) (simp_all add: sublist_Cons_right)

lemma fold_count:
  "fold (\<lambda>x n. if P x then n + 1 else n) xs (k::nat) = k + length (filter P xs)"
  by (induction xs arbitrary: k) simp_all

lemma fold_collect:
  "fold (\<lambda>x acc. if P x then acc @ [x] else acc) xs ys = ys @ filter P xs"
  by (induction xs arbitrary: ys) simp_all

lemma fact_supported_iff:
  "fact_supported fa docs \<longleftrightarrow> (\<exists>doc \<in> set docs. sublist (lower fa) (lower (content doc)))"
  by (induction docs) (auto simp: py_in_sublist)

lemma card_filter_distinct:
  "distinct xs \<Longrightarrow> card {x \<in> set xs. P x} = length (filter P xs)"
proof -
  assume d: "distinct xs"
  have "{x \<in> set xs. P x} = set (filter P xs)" by auto
  then have "card {x \<in> set xs. P x} = card (set (filter P xs))" by (rule arg_cong)
  also have "\<dots> = length (filter P xs)" using d by (intro distinct_card distinct_filter)
  finally show ?thesis .
qed

lemma fold_lga:
  "fold (\<lambda>doc s. case metadata doc ''lga'' of None \<Rightarrow> s | Some v \<Rightarrow> insert v s) docs S
     = S \<union> {v. \<exists>doc \<in> set docs. metadata doc ''lga'' = Some v}"
  by (induction docs arbitrary: S) (auto split: option.splits)

lemma extract_facts_Nil: "extract_facts [] = []"
  by code_simp

section \<open>The three scores\<close>

lemma evaluate_effectiveness_value:
  "evaluate_effectiveness qn ans kws =
     Inr (if ans = [] \<or> kws = [] then 0
          else real (length (filter (\<lambda>k. sublist (lower k) (lower ans)) kws))
                 / real (length kws))"
  by (simp add: evaluate_effectiveness_def truediv_def fold_count py_in_sublist Let_def)

lemma effectiveness_unit:
  "\<exists>v. evaluate_effectiveness qn ans kws = Inr v \<and> 0 \<le> v \<and> v \<le> 1"
proof -
  have "length (filter (\<lambda>k. py_in (lower k) (lower ans)) kws) \<le> length kws" by simp
  then show ?thesis
    by (auto simp: evaluate_effectiveness_def truediv_def fold_count Let_def divide_le_eq)
qed

lemma faithfulness_unit:
  "\<exists>v. evaluate_faithfulness ans docs = Inr v \<and> 0 \<le> v \<and> v \<le> 1"
proof -
  have "length (filter (\<lambda>fa. fact_supported fa docs) (extract_facts ans))
          \<le> length (extract_facts ans)"
    by simp
  then show ?thesis
    by (auto simp: evaluate_faithfulness_def truediv_def fold_count Let_def divide_le_eq)
qed

lemma source_attribution_unit:
  "\<exists>v. evaluate_source_attribution docs expected = Inr v \<and> 0 \<le> v \<and> v \<le> 1"
proof -
  have "card (A \<inter> set expected) \<le> card (set expected)" for A :: "string set"
    by (simp add: card_mono)
  then show ?thesis
    by (auto simp: evaluate_source_attribution_def truediv_def Let_def divide_le_eq card_eq_0_iff)
qed

text \<open>
  C3. A set of expected keywords is a list without repetition. The effectiveness score of an
  answer is the number of keywords of the set that occur in the answer, ignoring case, over
  the number of keywords; it is 0 for the empty answer and for the empty keyword set, and it
  always lies between 0 and 1. No division by zero is raised.
\<close>

theorem effectiveness_keyword_ratio:
  "distinct kws \<Longrightarrow>
   evaluate_effectiveness qn ans kws =
     Inr (if ans = [] \<or> set kws = {} then 0
          else real (card {k \<in> set kws. sublist (lower k) (lower ans)}) / real (card (set kws)))
   \<and> (\<exists>v. evaluate_effectiveness qn ans kws = Inr v \<and> 0 \<le> v \<and> v \<le> 1)"
proof -
  assume d: "distinct kws"
  have l: "card (set kws) = length kws" using d by (simp add: distinct_card)
  have le: "length (filter (\<lambda>k. sublist (lower k) (lower ans)) kws) \<le> length kws" by simp
  show ?thesis
    unfolding evaluate_effectiveness_value card_filter_distinct [OF d] l using le
    by (auto simp: divide_le_eq)
qed

theorem effectiveness_keyword_ratio_witness:
  "distinct [''rate'', ''count''] \<and>
   evaluate_effectiveness ''q'' ''The Rate is 5'' [''rate'', ''count''] = Inr (1 / 2)"
proof -
  have d: "distinct [''rate'', ''count'']" by simp
  have a: "sublist (lower ''rate'') (lower ''The Rate is 5'')" by code_simp
  have b: "\<not> sublist (lower ''count'') (lower ''The Rate is 5'')" by code_simp
  have s: "{k \<in> set [''rate'', ''count'']. sublist (lower k) (lower ''The Rate is 5'')}
             = {''rate''}"
    using a b by auto
  show ?thesis
    using effectiveness_keyword_ratio [OF d, of "''q''" "''The Rate is 5''"] d
    unfolding s by simp
qed

text \<open>
  C4. The source-attribution score is the number of expected sources found among the
  \<open>lga\<close> values of the retrieved documents' metadata, over the number of expected sources;
  with no expected source it is 1 when a document was retrieved and 0 when none was.
\<close>

theorem source_attribution_ratio:
  "evaluate_source_attribution docs expected =
     Inr (if set expected = {} then (if docs \<noteq> [] then 1 else 0)
          else real (card ({v. \<exists>doc \<in> set docs. metadata doc ''lga'' = Some v} \<inter> set expected))
                 / real (card (set expected)))"
  by (simp add: evaluate_source_attribution_def truediv_def fold_lga Let_def card_eq_0_iff)

theorem source_attribution_ratio_witness:
  "evaluate_source_attribution
     [\<lparr>content = ''Assault rate 500'', metadata = [''lga'' \<mapsto> ''Greater Sydney'']\<rparr>]
     [''Greater Sydney'', ''NSW Regional''] = Inr (1 / 2)"
proof -
  have s: "{v. \<exists>doc \<in> set [\<lparr>content = ''Assault rate 500'',
                               metadata = [''lga'' \<mapsto> ''Greater Sydney'']\<rparr>].
              metadata doc ''lga'' = Some v} = {''Greater Sydney''}"
    by auto
  show ?thesis
    unfolding source_attribution_ratio s by simp
qed

lemma lower_trend: "t \<in> set trends \<Longrightarrow> lower t = t"
proof -
  have "\<forall>t \<in> set trends. lower t = t" by code_simp
  then show "t \<in> set trends \<Longrightarrow> lower t = t" by blast
qed

lemma extract_facts_eq:
  "extract_facts ans =
     findall_digits ans @ filter (\<lambda>t. sublist t ans) crime_types
       @ filter (\<lambda>t. sublist t ans) lgas
       @ filter (\<lambda>t. sublist (lower t) (lower ans)) trends"
proof -
  have "filter (\<lambda>t. sublist t (lower ans)) trends
          = filter (\<lambda>t. sublist (lower t) (lower ans)) trends"
    by (rule filter_cong) (simp_all add: lower_trend)
  then show ?thesis
    by (simp add: extract_facts_def fold_collect py_in_sublist)
qed

lemma filter_takeWhile_dropWhile:
  "filter P xs = takeWhile P xs @ filter P (dropWhile P xs)"
  by (induction xs) simp_all

lemma concat_findall_digits: "concat (findall_digits s) = filter is_digit s"
proof (induction s rule: findall_digits.induct)
  case 1
  show ?case by simp
next
  case (2 c cs)
  show ?case
  proof (cases "is_digit c")
    case True
    with 2 show ?thesis
      using filter_takeWhile_dropWhile [of is_digit cs] by simp
  next
    case False
    with 2 show ?thesis by simp
  qed
qed

lemma findall_digits_runs:
  "r \<in> set (findall_digits s) \<Longrightarrow> r \<noteq> [] \<and> (\<forall>c \<in> set r. is_digit c) \<and> sublist r s"
proof (induction s rule: findall_digits.induct)
  case 1
  then show ?case by simp
next
  case (2 c cs)
  show ?case
  proof (cases "is_digit c")
    case False
    with 2 show ?thesis by (auto simp: sublist_Cons_right)
  next
    case True
    show ?thesis
    proof (cases "r = c # takeWhile is_digit cs")
      case here: True
      have "prefix (c # takeWhile is_digit cs) (c # cs)"
        by (simp add: takeWhile_is_prefix)
      with here True show ?thesis
        by (auto simp: sublist_Cons_right dest: set_takeWhileD)
    next
      case other: False
      with 2 True have r: "r \<in> set (findall_digits (dropWhile is_digit cs))" by simp
      with 2 True have ih: "r \<noteq> [] \<and> (\<forall>c \<in> set r. is_digit c) \<and> sublist r (dropWhile is_digit cs)"
        by simp
      have "suffix (dropWhile is_digit cs) (c # cs)"
        by (metis suffix_dropWhile suffix_ConsI)
      with ih have "sublist r (c # cs)"
        by (meson sublist_order.dual_order.trans suffix_imp_sublist)
      with ih show ?thesis by simp
    qed
  qed
qed

lemma evaluate_faithfulness_value:
  "evaluate_faithfulness ans docs =
     Inr (if extract_facts ans = [] \<or> docs = [] then 0
          else real (length (filter
                       (\<lambda>fa. \<exists>doc \<in> set docs. sublist (lower fa) (lower (content doc)))
                       (extract_facts ans)))
                 / real (length (extract_facts ans)))"
  by (cases "ans = []")
     (simp_all add: evaluate_faithfulness_def truediv_def fold_count fact_supported_iff Let_def
        extract_facts_Nil)

text \<open>
  C2, as amended. The facts of an answer are a sequence, repetitions kept: the maximal runs
  of digits in order of occurrence, then the crime-category terms and the region names that
  occur verbatim in the answer, then the trend words that occur in the answer ignoring case.
  The faithfulness score is the number of entries of that sequence that occur, ignoring case,
  in the content of some source document, over the length of the sequence; it is 0 when no
  fact is extracted or no source document is given, and it always lies between 0 and 1.
\<close>

theorem faithfulness_supported_ratio:
  "evaluate_faithfulness ans docs =
     Inr (if extract_facts ans = [] \<or> docs = [] then 0
          else real (length (filter
                       (\<lambda>fa. \<exists>doc \<in> set docs. sublist (lower fa) (lower (content doc)))
                       (extract_facts ans)))
                 / real (length (extract_facts ans)))
   \<and> extract_facts ans =
       findall_digits ans @ filter (\<lambda>t. sublist t ans) crime_types
         @ filter (\<lambda>t. sublist t ans) lgas
         @ filter (\<lambda>t. sublist (lower t) (lower ans)) trends
   \<and> concat (findall_digits ans) = filter is_digit ans
   \<and> (\<exists>v. evaluate_faithfulness ans docs = Inr v \<and> 0 \<le> v \<and> v \<le> 1)"
  using evaluate_faithfulness_value [of ans docs] extract_facts_eq [of ans]
    concat_findall_digits [of ans] faithfulness_unit [of ans docs]
  by blast

theorem faithfulness_supported_ratio_witness:
  "evaluate_faithfulness ''Stable at 7 and 7 and 8''
     [\<lparr>content = ''STABLE 7'', metadata = Map.empty\<rparr>] = Inr (3 / 4)
   \<and> extract_facts ''Stable at 7 and 7 and 8'' = [''7'', ''7'', ''8'', ''stable'']"
proof -
  have e: "extract_facts ''Stable at 7 and 7 and 8'' = [''7'', ''7'', ''8'', ''stable'']"
    by code_simp
  have l: "lower ''STABLE 7'' = ''stable 7''" "lower ''7'' = ''7''" "lower ''8'' = ''8''"
    "lower ''stable'' = ''stable''"
    by code_simp+
  have s: "sublist ''7'' ''stable 7''" "\<not> sublist ''8'' ''stable 7''"
    "sublist ''stable'' ''stable 7''"
    by code_simp+
  show ?thesis
    using faithfulness_supported_ratio
      [of "''Stable at 7 and 7 and 8''" "[\<lparr>content = ''STABLE 7'', metadata = Map.empty\<rparr>]"]
    unfolding e by (simp add: l s)
qed

text \<open>
  C2 as the specification words it fails on the code in two ways: a trend word is recognised
  in an answer that spells it with another case, and a fact that the answer repeats is
  counted once per occurrence.
\<close>

theorem faithfulness_spec_counterexample:
  "evaluate_faithfulness ''Stable'' [\<lparr>content = ''stable'', metadata = Map.empty\<rparr>] = Inr 1
   \<and> spec_faithfulness ''Stable'' [\<lparr>content = ''stable'', metadata = Map.empty\<rparr>] = 0
   \<and> evaluate_faithfulness ''7 7 8'' [\<lparr>content = ''7'', metadata = Map.empty\<rparr>] = Inr (2 / 3)
   \<and> spec_faithfulness ''7 7 8'' [\<lparr>content = ''7'', metadata = Map.empty\<rparr>] = 1 / 2"
  by code_simp

section \<open>The evaluation run\<close>

lemma query_hist:
  "snd (query p qn hist) = (if qa_chain p = None then hist else hist @ [InvokeChain qn])"
  by (simp add: query_def split: option.splits sum.splits)

lemma evaluate_item_hist:
  "snd (evaluate_item now p g hist) = snd (query p (gt_question g) hist)"
  by (simp add: evaluate_item_def split: prod.splits sum.splits)

lemma evaluate_item_fails_iff:
  "isl (fst (evaluate_item now p g hist)) \<longleftrightarrow> isl (fst (query p (gt_question g) hist))"
proof (cases "query p (gt_question g) hist")
  case (Pair r h)
  show ?thesis
  proof (cases r)
    case (Inl ex)
    with Pair show ?thesis by (simp add: evaluate_item_def)
  next
    case (Inr res)
    obtain a b c where
      "evaluate_effectiveness (gt_question g) (qr_answer res) (expected_keywords g) = Inr a"
      "evaluate_faithfulness (qr_answer res) (qr_source_documents res) = Inr b"
      "evaluate_source_attribution (qr_source_documents res) (expected_sources g) = Inr c"
      using effectiveness_unit faithfulness_unit source_attribution_unit by metis
    with Pair Inr show ?thesis by (simp add: evaluate_item_def bind_outcome_def Let_def)
  qed
qed

lemma evaluate_item_scored:
  assumes "evaluate_item now p g hist = (Inr r, hist')"
  shows "well_scored r \<and> question r = gt_question g"
proof (cases "query p (gt_question g) hist")
  case (Pair q h)
  show ?thesis
  proof (cases q)
    case (Inl ex)
    with Pair assms show ?thesis by (simp add: evaluate_item_def)
  next
    case (Inr res)
    obtain a b c where abc:
      "evaluate_effectiveness (gt_question g) (qr_answer res) (expected_keywords g) = Inr a"
      "0 \<le> a" "a \<le> 1"
      "evaluate_faithfulness (qr_answer res) (qr_source_documents res) = Inr b"
      "0 \<le> b" "b \<le> 1"
      "evaluate_source_attribution (qr_source_documents res) (expected_sources g) = Inr c"
      "0 \<le> c" "c \<le> 1"
      using effectiveness_unit faithfulness_unit source_attribution_unit by metis
    with Pair Inr assms show ?thesis
      by (auto simp: evaluate_item_def bind_outcome_def Let_def well_scored_def)
  qed
qed

lemma run_loop_outcomes:
  "fst (run_loop now p gts rs hist) = rs @ successes (item_outcomes now p gts hist)"
  by (induction gts arbitrary: rs hist)
     (auto simp: successes_def split: prod.splits sum.splits)

lemma run_loop_hist:
  "snd (run_loop now p gts rs hist) =
     (if qa_chain p = None then hist else hist @ map (\<lambda>g. InvokeChain (gt_question g)) gts)"
proof (induction gts arbitrary: rs hist)
  case Nil
  then show ?case by simp
next
  case (Cons g gts)
  have h: "snd (evaluate_item now p g hist) =
      (if qa_chain p = None then hist else hist @ [InvokeChain (gt_question g)])"
    by (simp add: evaluate_item_hist query_hist)
  show ?case
  proof (cases "evaluate_item now p g hist")
    case (Pair r h')
    with h Cons show ?thesis by (cases r) auto
  qed
qed

lemma length_item_outcomes: "length (item_outcomes now p gts hist) = length gts"
  by (induction gts arbitrary: hist) (auto split: prod.splits)

lemma item_outcomes_scored:
  "Inr r \<in> set (item_outcomes now p gts hist) \<Longrightarrow> well_scored r"
proof (induction gts arbitrary: hist)
  case Nil
  then show ?case by simp
next
  case (Cons g gts)
  then show ?case
    by (auto split: prod.splits dest: evaluate_item_scored [OF sym])
qed

lemma set_successes: "set (successes rs) = {v. Inr v \<in> set rs}"
  by (induction rs) (auto simp: successes_def split: sum.splits)

lemma run_evaluation_results:
  "evaluation_results (fst (run_evaluation now ev hist)) =
     evaluation_results ev
       @ successes (item_outcomes now (pipeline ev) (ground_truth_data ev) hist)"
proof (cases "run_loop now (pipeline ev) (ground_truth_data ev) (evaluation_results ev) hist")
  case (Pair rs h)
  with run_loop_outcomes [of now "pipeline ev" "ground_truth_data ev" "evaluation_results ev" hist]
  show ?thesis by (simp add: run_evaluation_def)
qed

lemma run_evaluation_hist:
  "snd (run_evaluation now ev hist) =
     (if qa_chain (pipeline ev) = None then hist
      else hist @ map (\<lambda>g. InvokeChain (gt_question g)) (ground_truth_data ev))"
proof (cases "run_loop now (pipeline ev) (ground_truth_data ev) (evaluation_results ev) hist")
  case (Pair rs h)
  with run_loop_hist [of now "pipeline ev" "ground_truth_data ev" "evaluation_results ev" hist]
  show ?thesis by (simp add: run_evaluation_def)
qed

lemma run_evaluation_frame:
  "pipeline (fst (run_evaluation now ev hist)) = pipeline ev
   \<and> ground_truth_data (fst (run_evaluation now ev hist)) = ground_truth_data ev"
  by (simp add: run_evaluation_def split: prod.splits)

lemma length_successes: "length (successes os) = length (filter (\<lambda>r. \<not> isl r) os)"
  by (induction os) (auto simp: successes_def split: sum.splits)

text \<open>
  C1. Every result that a run appends carries as its overall score the weighted sum
  0.4 effectiveness + 0.4 faithfulness + 0.2 source attribution of its own three scores;
  the three scores lie between 0 and 1, and so does the overall score.
\<close>

theorem overall_score_weighted_sum:
  "run_evaluation now ev hist = (ev', hist') \<Longrightarrow>
   r \<in> set (drop (length (evaluation_results ev)) (evaluation_results ev')) \<Longrightarrow>
   overall_score r = 0.4 * effectiveness_score r + 0.4 * faithfulness_score r
                     + 0.2 * source_attribution_score r
   \<and> 0 \<le> effectiveness_score r \<and> effectiveness_score r \<le> 1
   \<and> 0 \<le> faithfulness_score r \<and> faithfulness_score r \<le> 1
   \<and> 0 \<le> source_attribution_score r \<and> source_attribution_score r \<le> 1
   \<and> 0 \<le> overall_score r \<and> overall_score r \<le> 1"
proof -
  assume run: "run_evaluation now ev hist = (ev', hist')"
    and r: "r \<in> set (drop (length (evaluation_results ev)) (evaluation_results ev'))"
  have "evaluation_results ev' = evaluation_results ev
          @ successes (item_outcomes now (pipeline ev) (ground_truth_data ev) hist)"
    using run_evaluation_results [of now ev hist] run by simp
  with r have "Inr r \<in> set (item_outcomes now (pipeline ev) (ground_truth_data ev) hist)"
    by (simp add: set_successes)
  then have w: "well_scored r" by (rule item_outcomes_scored)
  then show ?thesis unfolding well_scored_def by auto
qed

theorem overall_score_weighted_sum_witness:
  "overall_score (hd (evaluation_results (fst (run_evaluation sample_now sample_evaluator []))))
     = 0.4 * (1 / 2) + 0.4 * 1 + 0.2 * 1
   \<and> overall_score (hd (evaluation_results (fst (run_evaluation sample_now sample_evaluator []))))
       \<le> 1"
proof -
  let ?run = "run_evaluation sample_now sample_evaluator []"
  let ?r = "hd (evaluation_results (fst ?run))"
  have run: "?run = (fst ?run, snd ?run)" by simp
  have e: "evaluation_results sample_evaluator = []" by (simp add: sample_evaluator_def)
  have "length (evaluation_results (fst ?run)) = 2" by code_simp
  then have "evaluation_results (fst ?run) \<noteq> []" by auto
  then have mem: "?r \<in> set (drop (length (evaluation_results sample_evaluator))
                               (evaluation_results (fst ?run)))"
    by (simp add: e)
  have s: "effectiveness_score ?r = 1 / 2" "faithfulness_score ?r = 1"
    "source_attribution_score ?r = 1"
    by code_simp+
  show ?thesis
    using overall_score_weighted_sum [OF run mem] by (simp add: s)
qed

text \<open>
  C9. A run goes through every benchmark item once and in order, whatever the items before it
  did: the chain is invoked once per item, an item whose \<open>try\<close> block raises (which it does
  exactly when its query raises) adds no result, and the results appended are those of the
  other items, in benchmark order. The run itself never raises, and it changes neither the
  pipeline nor the benchmark.
\<close>

theorem run_evaluation_skips_failed_items:
  "run_evaluation now ev hist = (ev', hist') \<Longrightarrow>
   evaluation_results ev' =
     evaluation_results ev
       @ successes (item_outcomes now (pipeline ev) (ground_truth_data ev) hist)
   \<and> length (item_outcomes now (pipeline ev) (ground_truth_data ev) hist)
       = length (ground_truth_data ev)
   \<and> length (evaluation_results ev') =
       length (evaluation_results ev)
         + length (filter (\<lambda>r. \<not> isl r)
             (item_outcomes now (pipeline ev) (ground_truth_data ev) hist))
   \<and> hist' = (if qa_chain (pipeline ev) = None then hist
              else hist @ map (\<lambda>g. InvokeChain (gt_question g)) (ground_truth_data ev))
   \<and> pipeline ev' = pipeline ev \<and> ground_truth_data ev' = ground_truth_data ev
   \<and> (\<forall>g h. isl (fst (evaluate_item now (pipeline ev) g h))
                = isl (fst (query (pipeline ev) (gt_question g) h)))"
proof -
  assume run: "run_evaluation now ev hist = (ev', hist')"
  have ev': "ev' = fst (run_evaluation now ev hist)" and hist': "hist' = snd (run_evaluation now ev hist)"
    using run by simp_all
  show ?thesis
    unfolding ev' hist'
    using run_evaluation_results [of now ev hist] run_evaluation_hist [of now ev hist]
      run_evaluation_frame [of now ev hist]
      length_item_outcomes [of now "pipeline ev" "ground_truth_data ev" hist]
    by (simp add: length_successes evaluate_item_fails_iff)
qed

theorem run_evaluation_skips_failed_items_witness:
  "map question (evaluation_results (fst (run_evaluation sample_now sample_evaluator [])))
     = [''q1'', ''q3'']
   \<and> snd (run_evaluation sample_now sample_evaluator [])
       = [InvokeChain ''q1'', InvokeChain ''q2'', InvokeChain ''q3'']"
proof -
  let ?run = "run_evaluation sample_now sample_evaluator []"
  have run: "?run = (fst ?run, snd ?run)" by simp
  have e: "evaluation_results sample_evaluator = []"
    "qa_chain (pipeline sample_evaluator) \<noteq> None"
    "map (\<lambda>g. InvokeChain (gt_question g)) (ground_truth_data sample_evaluator)
       = [InvokeChain ''q1'', InvokeChain ''q2'', InvokeChain ''q3'']"
    by (simp_all add: sample_evaluator_def)
  have q: "map question (successes (item_outcomes sample_now (pipeline sample_evaluator)
              (ground_truth_data sample_evaluator) [])) = [''q1'', ''q3'']"
    by code_simp
  show ?thesis
    using run_evaluation_skips_failed_items [OF run] q e by simp
qed

section \<open>The report\<close>

lemma generate_report_value:
  "evaluation_results ev \<noteq> [] \<Longrightarrow>
   generate_report ev =
     Inr (Report
       \<lparr>total_questions = length (evaluation_results ev),
        average_effectiveness =
          py_round (sum_list (map effectiveness_score (evaluation_results ev))
                    / real (length (evaluation_results ev))) 3,
        average_faithfulness =
          py_round (sum_list (map faithfulness_score (evaluation_results ev))
                    / real (length (evaluation_results ev))) 3,
        average_source_attribution =
          py_round (sum_list (map source_attribution_score (evaluation_results ev))
                    / real (length (evaluation_results ev))) 3,
        average_overall_score =
          py_round (sum_list (map overall_score (evaluation_results ev))
                    / real (length (evaluation_results ev))) 3,
        unanswered_questions =
          length (filter (\<lambda>r. overall_score r < 0.3) (evaluation_results ev)),
        unanswered_percentage =
          py_round (real (length (filter (\<lambda>r. overall_score r < 0.3) (evaluation_results ev)))
                    / real (length (evaluation_results ev)) * 100) 1\<rparr>
       (map (\<lambda>r.
          \<lparr>dr_question = question r,
           dr_effectiveness_score = py_round (effectiveness_score r) 3,
           dr_faithfulness_score = py_round (faithfulness_score r) 3,
           dr_source_attribution_score = py_round (source_attribution_score r) 3,
           dr_overall_score = py_round (overall_score r) 3\<rparr>) (evaluation_results ev))
       (generate_recommendations
          (sum_list (map effectiveness_score (evaluation_results ev))
             / real (length (evaluation_results ev)))
          (sum_list (map faithfulness_score (evaluation_results ev))
             / real (length (evaluation_results ev)))
          (sum_list (map source_attribution_score (evaluation_results ev))
             / real (length (evaluation_results ev)))))"
  by (simp add: generate_report_def truediv_def bind_outcome_def Let_def)

text \<open>
  C8. With no evaluation result collected, and so on a fresh evaluator, the report is the
  entry \<open>error: No evaluation results available\<close>; no call of \<open>generate_report\<close> raises a
  division by zero, or anything else.
\<close>

theorem report_without_results:
  "(evaluation_results ev = [] \<longrightarrow>
      generate_report ev = Inr (ErrorReport ''No evaluation results available''))
   \<and> generate_report (new_evaluator p) = Inr (ErrorReport ''No evaluation results available'')
   \<and> (\<exists>rep. generate_report ev = Inr rep)"
proof -
  have a: "evaluation_results ev = [] \<longrightarrow>
      generate_report ev = Inr (ErrorReport ''No evaluation results available'')"
    by (simp add: generate_report_def)
  have b: "generate_report (new_evaluator p) = Inr (ErrorReport ''No evaluation results available'')"
    by (simp add: generate_report_def new_evaluator_def)
  have c: "\<exists>rep. generate_report ev = Inr rep"
  proof (cases "evaluation_results ev = []")
    case True
    with a show ?thesis by simp
  next
    case False
    then show ?thesis using generate_report_value [of ev] by blast
  qed
  from a b c show ?thesis by blast
qed

theorem report_without_results_witness:
  "evaluation_results sample_evaluator = []
   \<and> generate_report sample_evaluator = Inr (ErrorReport ''No evaluation results available'')"
proof -
  have e: "evaluation_results sample_evaluator = []" by (simp add: sample_evaluator_def)
  with report_without_results [of sample_evaluator new_pipeline] show ?thesis by blast
qed

text \<open>
  C10. The results of an evaluator start empty; a run only appends to them, so that after two
  runs they are the results held before the first run, followed by the results of the first
  run, followed by the results of the second; and the report of the evaluator counts and
  averages over all of them.
\<close>

theorem evaluation_results_accumulate:
  "run_evaluation now1 ev hist = (ev1, hist1) \<Longrightarrow>
   run_evaluation now2 ev1 hist1 = (ev2, hist2) \<Longrightarrow>
   evaluation_results (new_evaluator p) = []
   \<and> evaluation_results ev1 =
       evaluation_results ev
         @ successes (item_outcomes now1 (pipeline ev) (ground_truth_data ev) hist)
   \<and> evaluation_results ev2 =
       evaluation_results ev
         @ successes (item_outcomes now1 (pipeline ev) (ground_truth_data ev) hist)
         @ successes (item_outcomes now2 (pipeline ev) (ground_truth_data ev) hist1)
   \<and> (evaluation_results ev2 \<noteq> [] \<longrightarrow>
       (\<exists>details recs.
          generate_report ev2 =
            Inr (Report
              \<lparr>total_questions = length (evaluation_results ev2),
               average_effectiveness =
                 py_round (sum_list (map effectiveness_score (evaluation_results ev2))
                           / real (length (evaluation_results ev2))) 3,
               average_faithfulness =
                 py_round (sum_list (map faithfulness_score (evaluation_results ev2))
                           / real (length (evaluation_results ev2))) 3,
               average_source_attribution =
                 py_round (sum_list (map source_attribution_score (evaluation_results ev2))
                           / real (length (evaluation_results ev2))) 3,
               average_overall_score =
                 py_round (sum_list (map overall_score (evaluation_results ev2))
                           / real (length (evaluation_results ev2))) 3,
               unanswered_questions =
                 length (filter (\<lambda>r. overall_score r < 0.3) (evaluation_results ev2)),
               unanswered_percentage =
                 py_round
                   (real (length (filter (\<lambda>r. overall_score r < 0.3) (evaluation_results ev2)))
                    / real (length (evaluation_results ev2)) * 100) 1\<rparr>
              details recs)))"
proof -
  assume run1: "run_evaluation now1 ev hist = (ev1, hist1)"
    and run2: "run_evaluation now2 ev1 hist1 = (ev2, hist2)"
  have a: "evaluation_results (new_evaluator p) = []" by (simp add: new_evaluator_def)
  have b: "evaluation_results ev1 = evaluation_results ev
         @ successes (item_outcomes now1 (pipeline ev) (ground_truth_data ev) hist)"
    using run_evaluation_results [of now1 ev hist] run1 by simp
  have f: "pipeline ev1 = pipeline ev" "ground_truth_data ev1 = ground_truth_data ev"
    using run_evaluation_frame [of now1 ev hist] run1 by simp_all
  have c: "evaluation_results ev2 = evaluation_results ev1
         @ successes (item_outcomes now2 (pipeline ev) (ground_truth_data ev) hist1)"
    using run_evaluation_results [of now2 ev1 hist1] run2 f by simp
  show ?thesis
    using a b c generate_report_value [of ev2] by auto
qed

theorem evaluation_results_accumulate_witness:
  "length (evaluation_results
     (fst (run_evaluation sample_now (fst (run_evaluation sample_now sample_evaluator []))
        (snd (run_evaluation sample_now sample_evaluator []))))) = 4
   \<and> (\<exists>s details recs.
        generate_report
          (fst (run_evaluation sample_now (fst (run_evaluation sample_now sample_evaluator []))
             (snd (run_evaluation sample_now sample_evaluator []))))
          = Inr (Report s details recs) \<and> total_questions s = 4)"
proof -
  let ?run1 = "run_evaluation sample_now sample_evaluator []"
  let ?run2 = "run_evaluation sample_now (fst ?run1) (snd ?run1)"
  have run1: "?run1 = (fst ?run1, snd ?run1)" by simp
  have run2: "?run2 = (fst ?run2, snd ?run2)" by simp
  have l: "length (evaluation_results (fst ?run2)) = 4" by code_simp
  then have n: "evaluation_results (fst ?run2) \<noteq> []" by auto
  show ?thesis
    using evaluation_results_accumulate [OF run1 run2, of new_pipeline] n l
    by auto
qed

section \<open>Initialisation and query of the pipeline\<close>

lemma setup_qa_chain_result:
  "(\<exists>c. fst (setup_qa_chain e p hist) = Inr c
        \<and> qa_chain (fst (snd (setup_qa_chain e p hist))) = Some c
        \<and> snd (snd (setup_qa_chain e p hist)) = hist @ [FromChainType])
   \<or> (isl (fst (setup_qa_chain e p hist))
       \<and> fst (snd (setup_qa_chain e p hist)) = p
       \<and> (snd (snd (setup_qa_chain e p hist)) = hist
           \<or> snd (snd (setup_qa_chain e p hist)) = hist @ [FromChainType]))"
  by (simp add: setup_qa_chain_def split: option.split sum.split)

lemma setup_qa_chain_cases:
  assumes "setup_qa_chain e p hist = (r, p', hist')"
  shows "(\<exists>c. r = Inr c \<and> qa_chain p' = Some c \<and> hist' = hist @ [FromChainType])
     \<or> (isl r \<and> p' = p \<and> (hist' = hist \<or> hist' = hist @ [FromChainType]))"
  using setup_qa_chain_result [of e p hist] unfolding assms by simp

lemma create_vector_store_result:
  "qa_chain (fst (snd (create_vector_store e docs d p hist))) = qa_chain p
   \<and> (snd (snd (create_vector_store e docs d p hist)) = hist @ [FromDocuments d]
         \<and> isl (fst (create_vector_store e docs d p hist))
       \<or> snd (snd (create_vector_store e docs d p hist)) = hist @ [FromDocuments d, Persist])"
  by (simp add: create_vector_store_def Let_def split: option.split sum.split)

lemma create_vector_store_cases:
  assumes "create_vector_store e docs d p hist = (r, p', hist')"
  shows "qa_chain p' = qa_chain p
     \<and> (hist' = hist @ [FromDocuments d] \<and> isl r
         \<or> hist' = hist @ [FromDocuments d, Persist])"
  using create_vector_store_result [of e docs d p hist] unfolding assms by simp

lemma load_vector_store_result:
  "qa_chain (fst (snd (load_vector_store e d p hist))) = qa_chain p
   \<and> snd (snd (load_vector_store e d p hist)) = hist @ [OpenStore d]"
  by (simp add: load_vector_store_def split: sum.split)

lemma load_vector_store_cases:
  assumes "load_vector_store e d p hist = (r, p', hist')"
  shows "qa_chain p' = qa_chain p \<and> hist' = hist @ [OpenStore d]"
  using load_vector_store_result [of e d p hist] unfolding assms by simp






lemma chain_after_initialize:
  assumes "initialize_pipeline e f force p hist = (r, p', hist')"
  shows "(r = Inr () \<longrightarrow> qa_chain p' \<noteq> None) \<and> (isl r \<longrightarrow> qa_chain p' = qa_chain p)"
proof -
  let ?d = "''chroma_db''"
  let ?h0 = "if force then hist else hist @ [PathExists ?d]"
  let ?stage =
    "if force \<or> \<not> path_exists e hist ?d
     then (case load_documents e f ?h0 of
             (Inl ex, l) \<Rightarrow> (Inl ex, p, l)
           | (Inr documents, l) \<Rightarrow> create_vector_store e documents ?d p l)
     else load_vector_store e ?d p ?h0"
  obtain r1 p1 h1 where st: "?stage = (r1, p1, h1)" by (cases ?stage)
  have q1: "qa_chain p1 = qa_chain p"
  proof (cases "force \<or> \<not> path_exists e hist ?d")
    case True
    obtain r0 h0 where ld: "load_documents e f ?h0 = (r0, h0)"
      by (cases "load_documents e f ?h0")
    show ?thesis
    proof (cases r0)
      case (Inl ex)
      with st True ld show ?thesis by auto
    next
      case (Inr docs)
      with st True ld have "create_vector_store e docs ?d p h0 = (r1, p1, h1)" by auto
      from create_vector_store_cases [OF this] show ?thesis by simp
    qed
  next
    case False
    with st have "load_vector_store e ?d p ?h0 = (r1, p1, h1)" by auto
    from load_vector_store_cases [OF this] show ?thesis by simp
  qed
  have unfold: "initialize_pipeline e f force p hist =
      (case r1 of
         Inl ex \<Rightarrow> (Inl ex, p1, h1)
       | Inr vs \<Rightarrow>
           (case setup_qa_chain e p1 h1 of
              (Inl ex, p2, h2) \<Rightarrow> (Inl ex, p2, h2)
            | (Inr c, p2, h2) \<Rightarrow> (Inr (), p2, h2)))"
    using st by (simp add: initialize_pipeline_def Let_def)
  show ?thesis
  proof (cases r1)
    case (Inl ex)
    with unfold assms q1 show ?thesis by auto
  next
    case (Inr vs)
    obtain r2 p2 h2 where sq: "setup_qa_chain e p1 h1 = (r2, p2, h2)"
      by (cases "setup_qa_chain e p1 h1")
    from setup_qa_chain_cases [OF sq] unfold assms Inr sq q1 show ?thesis
      by (cases r2) auto
  qed
qed

text \<open>
  C7. On a pipeline with no QA chain wired, and so on a new pipeline, \<open>query\<close> raises
  \<open>ValueError: QA chain not initialized\<close>, returns no result and calls no service; a failed
  \<open>initialize_pipeline\<close> leaves an unwired pipeline unwired. After a successful
  \<open>initialize_pipeline\<close> a chain is wired and \<open>query\<close> passes the question to it, failing
  only when the chain call itself fails.
\<close>

theorem query_needs_wired_chain:
  "(qa_chain p = None \<longrightarrow>
      query p qn hist = (Inl (ValueError ''QA chain not initialized''), hist))
   \<and> qa_chain new_pipeline = None
   \<and> (qa_chain p = None \<longrightarrow> isl (fst (initialize_pipeline e f force p hist)) \<longrightarrow>
        qa_chain (fst (snd (initialize_pipeline e f force p hist))) = None)
   \<and> (fst (initialize_pipeline e f force p hist) = Inr () \<longrightarrow>
        (\<exists>c. qa_chain (fst (snd (initialize_pipeline e f force p hist))) = Some c
           \<and> snd (query (fst (snd (initialize_pipeline e f force p hist))) qn h)
               = h @ [InvokeChain qn]
           \<and> isl (fst (query (fst (snd (initialize_pipeline e f force p hist))) qn h))
               = isl (c h qn)))"
proof -
  let ?i = "initialize_pipeline e f force p hist"
  have i: "?i = (fst ?i, fst (snd ?i), snd (snd ?i))" by simp
  note ch = chain_after_initialize [OF i]
  have a: "qa_chain p = None \<longrightarrow>
      query p qn hist = (Inl (ValueError ''QA chain not initialized''), hist)"
    by (simp add: query_def)
  have b: "qa_chain new_pipeline = None" by (simp add: new_pipeline_def)
  have c: "qa_chain p = None \<longrightarrow> isl (fst ?i) \<longrightarrow> qa_chain (fst (snd ?i)) = None"
    using ch by simp
  have d: "fst ?i = Inr () \<longrightarrow>
        (\<exists>c. qa_chain (fst (snd ?i)) = Some c
           \<and> snd (query (fst (snd ?i)) qn h) = h @ [InvokeChain qn]
           \<and> isl (fst (query (fst (snd ?i)) qn h)) = isl (c h qn))"
  proof
    assume "fst ?i = Inr ()"
    with ch obtain c where c: "qa_chain (fst (snd ?i)) = Some c" by auto
    then show "\<exists>c. qa_chain (fst (snd ?i)) = Some c
           \<and> snd (query (fst (snd ?i)) qn h) = h @ [InvokeChain qn]
           \<and> isl (fst (query (fst (snd ?i)) qn h)) = isl (c h qn)"
      by (simp add: query_def split: sum.split)
  qed
  from a b c d show ?thesis by blast
qed

theorem query_needs_wired_chain_witness:
  "query new_pipeline ''q1'' [] = (Inl (ValueError ''QA chain not initialized''), [])
   \<and> fst (initialize_pipeline sample_env ''data/rag_documents.json'' True new_pipeline [])
       = Inr ()
   \<and> snd (query
        (fst (snd (initialize_pipeline sample_env ''data/rag_documents.json'' True
                     new_pipeline [])))
        ''q1'' []) = [InvokeChain ''q1'']"
proof -
  let ?i = "initialize_pipeline sample_env ''data/rag_documents.json'' True new_pipeline []"
  have n: "qa_chain new_pipeline = None" by (simp add: new_pipeline_def)
  have i: "fst ?i = Inr ()" by code_simp
  note t = query_needs_wired_chain
      [where p = new_pipeline and qn = "''q1''" and hist = "[]" and e = sample_env
         and f = "''data/rag_documents.json''" and force = True and h = "[]"]
  from t n have a: "query new_pipeline ''q1'' [] = (Inl (ValueError ''QA chain not initialized''), [])"
    by blast
  from t i have "\<exists>c. qa_chain (fst (snd ?i)) = Some c
           \<and> snd (query (fst (snd ?i)) ''q1'' []) = [] @ [InvokeChain ''q1'']
           \<and> isl (fst (query (fst (snd ?i)) ''q1'' [])) = isl (c [] ''q1'')"
    by blast
  then have b: "snd (query (fst (snd ?i)) ''q1'' []) = [InvokeChain ''q1'']" by auto
  from a i b show ?thesis by blast
qed



text \<open>
  C5, as amended. \<open>create_vector_store\<close> has no staging and no rollback of its own. It makes
  one \<open>from_documents\<close> call on all chunks of the corpus and, only when that call has
  returned, one \<open>persist\<close> call. It raises exactly when one of the two calls raises, and with
  that call's exception. When \<open>from_documents\<close> raises, the pipeline is unchanged; once it
  has returned, the pipeline refers to the new store, whether \<open>persist\<close> then raises or not.
\<close>

theorem create_vector_store_delegates:
  "create_vector_store e documents d p hist = (r, p', hist') \<Longrightarrow>
   (case from_documents e hist (split_documents e 1000 200 documents) d of
      Inl ex \<Rightarrow> r = Inl ex \<and> p' = p \<and> hist' = hist @ [FromDocuments d]
    | Inr vs \<Rightarrow>
        p' = p\<lparr>vectorstore := Some vs\<rparr>
        \<and> hist' = hist @ [FromDocuments d, Persist]
        \<and> r = (case persist e (hist @ [FromDocuments d]) vs of
                 Some ex \<Rightarrow> Inl ex
               | None \<Rightarrow> Inr vs))"
  by (auto simp: create_vector_store_def Let_def split: sum.splits option.splits)

theorem create_vector_store_delegates_witness:
  "create_vector_store sample_env [chunk1, chunk2] ''chroma_db'' new_pipeline []
     = (Inr [chunk1, chunk2], new_pipeline\<lparr>vectorstore := Some [chunk1, chunk2]\<rparr>,
        [FromDocuments ''chroma_db'', Persist])"
proof -
  let ?c = "create_vector_store sample_env [chunk1, chunk2] ''chroma_db'' new_pipeline []"
  have c: "?c = (fst ?c, fst (snd ?c), snd (snd ?c))" by simp
  have e: "from_documents sample_env [] (split_documents sample_env 1000 200 [chunk1, chunk2])
             ''chroma_db'' = Inr [chunk1, chunk2]"
    "persist sample_env [FromDocuments ''chroma_db''] [chunk1, chunk2] = None"
    by (simp_all add: sample_env_def)
  from create_vector_store_delegates [OF c] show ?thesis
    by (simp add: e prod_eq_iff)
qed

text \<open>
  C5 as the specification words it fails on both stores: the failed build leaves one chunk
  of two in an index that did not exist before, and the successful build leaves the chunk of
  the earlier build beside the new ones.
\<close>

theorem build_not_atomic_counterexample:
  "\<not> spec_atomic_build failing_store_env [chunk1, chunk2] ''chroma_db'' new_pipeline []
   \<and> \<not> spec_atomic_build appending_store_env [chunk1, chunk2] ''chroma_db'' new_pipeline []"
  by (simp add: spec_atomic_build_def create_vector_store_def failing_store_env_def
        appending_store_env_def sample_env_def Let_def)

end
